theory Spec2Isabelle
  imports Complex_Main "HOL-Library.Sublist"
begin

section \<open>Python values, strings and errors\<close>

text \<open>
  Python dictionaries with string keys are association lists (\<open>dict\<close>); a lookup is
  \<open>map_of\<close>, and a dictionary is truthy when it has an entry. Floats are reals: the
  development only compares and stores them.
\<close>

datatype pyval =
    VNone
  | VBool bool
  | VInt int
  | VFloat real
  | VStr string
  | VList "pyval list"
  | VDict "(string \<times> pyval) list"

type_synonym dict = "(string \<times> pyval) list"

text \<open>The exceptions the modelled code raises or lets through.\<close>

datatype error =
    ValueError string
  | RuntimeError string
  | AttributeError string
  | TypeError string
  | GenerationError string
  | StoreError string

text \<open>\<open>str.lower()\<close> on the ASCII range; other bytes are left as they are.\<close>

definition char_lower :: "char \<Rightarrow> char" where
  "char_lower c =
     (let n = (of_char c :: nat)
      in if 65 \<le> n \<and> n \<le> 90 then char_of (n + 32) else c)"

definition lower :: "string \<Rightarrow> string" where
  "lower s = map char_lower s"

text \<open>\<open>pattern in text\<close> on strings: \<open>pattern\<close> occurs as a contiguous substring.\<close>

definition py_in :: "string \<Rightarrow> string \<Rightarrow> bool" where
  "py_in pat s = sublist pat s"

text \<open>
  \<open>str.strip()\<close>: leading and trailing whitespace removed; on the ASCII range the
  whitespace characters are the space, tab to carriage return, and the four separators.
\<close>

definition is_space :: "char \<Rightarrow> bool" where
  "is_space c =
     (c \<in> set [CHR '' '', CHR 0x09, CHR 0x0A, CHR 0x0B, CHR 0x0C, CHR 0x0D,
                CHR 0x1C, CHR 0x1D, CHR 0x1E, CHR 0x1F])"

definition strip :: "string \<Rightarrow> string" where
  "strip s = rev (dropWhile is_space (rev (dropWhile is_space s)))"

text \<open>\<open>sep.join(parts)\<close>.\<close>

fun join :: "string \<Rightarrow> string list \<Rightarrow> string" where
  "join sep [] = []"
| "join sep [p] = p"
| "join sep (p # q # ps) = p @ sep @ join sep (q # ps)"

text \<open>\<open>any(k in text for k in keywords)\<close>.\<close>

definition any_in :: "string list \<Rightarrow> string \<Rightarrow> bool" where
  "any_in keywords s = list_ex (\<lambda>k. py_in k s) keywords"

section \<open>Character model: ability scores (core/character_manager.py)\<close>

record AbilityScores =
  strength :: int
  dexterity :: int
  constitution :: int
  intelligence :: int
  wisdom :: int
  charisma :: int

text \<open>
  \<open>getattr(self, name)\<close> on an \<open>AbilityScores\<close> instance: the six fields are integers, the
  two methods are bound methods, a name the class does not have raises \<open>AttributeError\<close>.
  The attributes every Python object has (\<open>__doc__\<close>, \<open>__hash__\<close> and the like) are not
  listed: for them the lookup succeeds and the subtraction raises \<open>TypeError\<close>, so
  \<open>get_modifier\<close> raises for them as well, with the other exception.
\<close>

datatype attr = Score int | Method

definition getattr_scores :: "AbilityScores \<Rightarrow> string \<Rightarrow> error + attr" where
  "getattr_scores a name =
     (if name = ''strength'' then Inr (Score (strength a))
      else if name = ''dexterity'' then Inr (Score (dexterity a))
      else if name = ''constitution'' then Inr (Score (constitution a))
      else if name = ''intelligence'' then Inr (Score (intelligence a))
      else if name = ''wisdom'' then Inr (Score (wisdom a))
      else if name = ''charisma'' then Inr (Score (charisma a))
      else if name = ''get_modifier'' \<or> name = ''to_dict'' then Inr Method
      else Inl (AttributeError name))"

text \<open>
  \<open>AbilityScores.get_modifier\<close>: \<open>score = getattr(self, ability.lower())\<close>, then
  \<open>(score - 10) // 2\<close>. Python's \<open>//\<close> on integers rounds towards minus infinity, as
  \<open>div\<close> on \<open>int\<close> does. Subtracting from a bound method raises \<open>TypeError\<close>.
\<close>

definition get_modifier :: "AbilityScores \<Rightarrow> string \<Rightarrow> error + int" where
  "get_modifier a ability =
     (case getattr_scores a (lower ability) of
        Inl e \<Rightarrow> Inl e
      | Inr Method \<Rightarrow> Inl (TypeError ''unsupported operand type(s) for -'')
      | Inr (Score score) \<Rightarrow> Inr ((score - 10) div 2))"

section \<open>Narrative generation gateway: response classifier (ai/ollama_client.py)\<close>

definition dice_patterns :: "string list" where
  "dice_patterns =
     [''roll a d'', ''make a'', ''roll for'', ''d20'', ''d12'', ''d10'', ''d8'', ''d6'', ''d4'']"

definition d20_request :: pyval where
  "d20_request = VDict [(''type'', VStr ''d20''), (''reason'', VStr ''skill check or attack'')]"

text \<open>
  The loop of \<open>_parse_dm_response\<close> over the patterns: the first pattern found in the
  lowered response ends the loop (\<open>break\<close>), after appending a d20 request when the lowered
  response contains \<open>d20\<close>.
\<close>

fun dice_loop :: "string list \<Rightarrow> string \<Rightarrow> pyval list \<Rightarrow> pyval list" where
  "dice_loop [] response dice_needed = dice_needed"
| "dice_loop (pattern # rest) response dice_needed =
     (if py_in (lower pattern) (lower response)
      then (if py_in ''d20'' (lower response) then dice_needed @ [d20_request] else dice_needed)
      else dice_loop rest response dice_needed)"

definition action_keywords :: "string list" where
  "action_keywords = [''roll'', ''choose'', ''decide'', ''what do you'', ''make a'']"

text \<open>\<open>OllamaClient._parse_dm_response\<close>; \<open>model\<close> is \<open>self.model\<close>.\<close>

definition parse_dm_response :: "string \<Rightarrow> string \<Rightarrow> dict" where
  "parse_dm_response model response =
     (let dice_needed = dice_loop dice_patterns response [];
          action_required = any_in action_keywords (lower response)
      in [(''narrative'', VStr (strip response)),
          (''action_required'', VBool action_required),
          (''dice_needed'', VList dice_needed),
          (''metadata'', VDict [(''model'', VStr model),
                                (''length'', VInt (int (length response))),
                                (''has_dice_request'', VBool (length dice_needed > 0))])])"

text \<open>The \<open>dice_needed\<close> list of a structured response, and the \<open>type\<close> of a request.\<close>

definition dice_needed_of :: "dict \<Rightarrow> pyval list" where
  "dice_needed_of r = (case map_of r ''dice_needed'' of Some (VList ds) \<Rightarrow> ds | _ \<Rightarrow> [])"

definition dice_type :: "pyval \<Rightarrow> pyval option" where
  "dice_type d = (case d of VDict kv \<Rightarrow> map_of kv ''type'' | _ \<Rightarrow> None)"

section \<open>Clock readings and their formatting\<close>

record datetime =
  year :: nat
  month :: nat
  day :: nat
  hour :: nat
  minute :: nat
  second :: nat
  microsecond :: nat

definition digit_char :: "nat \<Rightarrow> char" where
  "digit_char d = char_of (48 + d)"

fun digits :: "nat \<Rightarrow> string" where
  "digits n = (if n < 10 then [digit_char n] else digits (n div 10) @ [digit_char (n mod 10)])"

text \<open>A number printed in at least \<open>w\<close> digits, padded with zeros (\<open>%02d\<close>, \<open>%04d\<close>).\<close>

definition zpad :: "nat \<Rightarrow> nat \<Rightarrow> string" where
  "zpad w n = replicate (w - length (digits n)) (CHR ''0'') @ digits n"

text \<open>\<open>strftime("%Y%m%d_%H%M%S")\<close>: the reading to the second.\<close>

definition strftime_id :: "datetime \<Rightarrow> string" where
  "strftime_id t =
     zpad 4 (year t) @ zpad 2 (month t) @ zpad 2 (day t) @ ''_'' @
     zpad 2 (hour t) @ zpad 2 (minute t) @ zpad 2 (second t)"

text \<open>\<open>isoformat()\<close>: the fraction is printed only when the microseconds are not zero.\<close>

definition isoformat :: "datetime \<Rightarrow> string" where
  "isoformat t =
     zpad 4 (year t) @ ''-'' @ zpad 2 (month t) @ ''-'' @ zpad 2 (day t) @ ''T'' @
     zpad 2 (hour t) @ '':'' @ zpad 2 (minute t) @ '':'' @ zpad 2 (second t) @
     (if microsecond t = 0 then [] else ''.'' @ zpad 6 (microsecond t))"

section \<open>Semantic memory index (data/vector_store.py)\<close>

text \<open>Truthiness of a Python value, as \<open>if v:\<close> tests it.\<close>

fun truthy :: "pyval \<Rightarrow> bool" where
  "truthy VNone = False"
| "truthy (VBool b) = b"
| "truthy (VInt i) = (i \<noteq> 0)"
| "truthy (VFloat r) = (r \<noteq> 0)"
| "truthy (VStr s) = (s \<noteq> [])"
| "truthy (VList xs) = (xs \<noteq> [])"
| "truthy (VDict kv) = (kv \<noteq> [])"

text \<open>\<open>s[-8:]\<close>: the last eight characters, the whole string when it is shorter.\<close>

definition last8 :: "string \<Rightarrow> string" where
  "last8 s = drop (length s - 8) s"

text \<open>
  One of the three optional parts of a fragment id: nothing when \<open>metadata.get(key)\<close> is
  falsy, \<open>prefix + value[-8:]\<close> for a string. The ids of this program are strings; a
  number cannot be sliced (\<open>TypeError\<close>), and lists or dictionaries are no metadata
  values of the index, so they are given the same error.
\<close>

definition id_part :: "string \<Rightarrow> string \<Rightarrow> dict \<Rightarrow> error + string list" where
  "id_part pre key metadata =
     (case map_of metadata key of
        None \<Rightarrow> Inr []
      | Some v \<Rightarrow>
          if \<not> truthy v then Inr []
          else (case v of
                  VStr s \<Rightarrow> Inr [pre @ last8 s]
                | _ \<Rightarrow> Inl (TypeError ''object is not subscriptable'')))"

text \<open>
  \<open>VectorStore._generate_id\<close>. \<open>md5\<close> is \<open>hashlib.md5(b).hexdigest()\<close> and \<open>now\<close> the
  reading of \<open>datetime.now()\<close> taken inside the function.
\<close>

definition generate_id ::
  "(string \<Rightarrow> string) \<Rightarrow> datetime \<Rightarrow> string \<Rightarrow> dict \<Rightarrow> error + string" where
  "generate_id md5 now content metadata =
     (let content_hash = take 8 (md5 content);
          timestamp = strftime_id now;
          id_parts = [content_hash, timestamp]
      in case id_part ''sess_'' ''session_id'' metadata of
           Inl e \<Rightarrow> Inl e
         | Inr p1 \<Rightarrow>
        (case id_part ''char_'' ''character_id'' metadata of
           Inl e \<Rightarrow> Inl e
         | Inr p2 \<Rightarrow>
        (case id_part ''camp_'' ''campaign_id'' metadata of
           Inl e \<Rightarrow> Inl e
         | Inr p3 \<Rightarrow> Inr (join ''_'' (id_parts @ p1 @ p2 @ p3)))))"

record entry =
  e_id :: string
  e_document :: string
  e_metadata :: dict

type_synonym collection = "entry list"

text \<open>\<open>{**metadata, "timestamp": ts, "type": ty}\<close>: later keys replace earlier ones.\<close>

definition dict_set :: "dict \<Rightarrow> string \<Rightarrow> pyval \<Rightarrow> dict" where
  "dict_set d k v =
     (if k \<in> fst ` set d then map (\<lambda>(k', v'). if k' = k then (k', v) else (k', v')) d
      else d @ [(k, v)])"

definition stamped :: "dict \<Rightarrow> datetime \<Rightarrow> string \<Rightarrow> dict" where
  "stamped metadata now ty =
     dict_set (dict_set metadata ''timestamp'' (VStr (isoformat now))) ''type'' (VStr ty)"

text \<open>
  Modelled from the spec: the index's own \<open>collection.add\<close> (the ChromaDB library, not
  part of the repository). It embeds the document and inserts the entry under its id; it
  fails when the embedding function or the index fails (\<open>failure\<close>), and adding under an
  id that is already present is a no-op-safe retry.
\<close>

definition collection_add ::
  "error option \<Rightarrow> collection \<Rightarrow> string \<Rightarrow> dict \<Rightarrow> string \<Rightarrow> error + collection" where
  "collection_add failure coll document metadata ident =
     (case failure of
        Some e \<Rightarrow> Inl e
      | None \<Rightarrow>
          if ident \<in> e_id ` set coll then Inr coll
          else Inr (coll @ [\<lparr>e_id = ident, e_document = document, e_metadata = metadata\<rparr>]))"

text \<open>\<open>collection.delete(ids=[ident])\<close>: deleting an absent id is not an error.\<close>

definition collection_delete :: "collection \<Rightarrow> string \<Rightarrow> collection" where
  "collection_delete coll ident = filter (\<lambda>e. e_id e \<noteq> ident) coll"

text \<open>What \<open>collection.query\<close> returns: per query text, parallel lists.\<close>

record query_result =
  qr_ids :: "string list list option"
  qr_documents :: "string list list option"
  qr_metadatas :: "dict list list option"
  qr_distances :: "real list list option"

text \<open>One formatted result; \<open>f_distance\<close> is the value under the key \<open>distance\<close>.\<close>

record formatted =
  f_id :: "string option"
  f_content :: string
  f_metadata :: dict
  f_distance :: "real option"
  f_collection :: string

text \<open>\<open>x[0] if x else []\<close>.\<close>

definition first_or_empty :: "'a list list option \<Rightarrow> 'a list" where
  "first_or_empty x = (case x of Some (y # _) \<Rightarrow> y | _ \<Rightarrow> [])"

text \<open>\<open>VectorStore._format_results\<close>.\<close>

definition format_results :: "query_result \<Rightarrow> string \<Rightarrow> formatted list" where
  "format_results results collection_type =
     (case qr_documents results of
        None \<Rightarrow> []
      | Some [] \<Rightarrow> []
      | Some (documents # _) \<Rightarrow>
          (let metadatas = first_or_empty (qr_metadatas results);
               distances = first_or_empty (qr_distances results);
               ids = first_or_empty (qr_ids results)
           in map (\<lambda>(i, doc).
                 \<lparr>f_id = (if i < length ids then Some (ids ! i) else None),
                  f_content = doc,
                  f_metadata = (if i < length metadatas then metadatas ! i else []),
                  f_distance = (if i < length distances then Some (distances ! i) else None),
                  f_collection = collection_type\<rparr>)
                (enumerate 0 documents)))"

text \<open>
  The collaborators of the index and the engine, and the clock readings of one call:
  the digest function, the index's similarity query (query text, \<open>where\<close> filter,
  \<open>n_results\<close>), a failure of the embedding function or index on a write, the generation
  backend's blocking call, a failure of the relational store, Python's printing of
  values, and the readings of \<open>datetime.now()\<close> and of the event loop's clock at each
  place the code reads them.
\<close>

record env =
  md5_hexdigest :: "string \<Rightarrow> string"
  chroma_query :: "collection \<Rightarrow> string \<Rightarrow> dict \<Rightarrow> int \<Rightarrow> error + query_result"
  chroma_add_failure :: "error option"
  ollama_generate :: "string \<Rightarrow> error + string"
  db_failure :: "error option"
  str_of_result :: "formatted \<Rightarrow> string"
  repr_of :: "pyval \<Rightarrow> string"
  now_generate_id :: datetime
  now_metadata :: datetime
  now_session_id :: datetime
  loop_time_start :: real
  loop_time_action :: real
  loop_time_response :: real

record VectorStore =
  campaign_collection :: "collection option"
  memory_collection :: "collection option"
  character_collection :: "collection option"

text \<open>
  The body shared by \<open>add_campaign_content\<close>, \<open>add_memory\<close> and \<open>add_character_info\<close>:
  derive the id, add to the collection; any exception is logged and raised again.
  A collection that was never initialised is \<open>None\<close>, and calling \<open>add\<close> on it raises.
\<close>

definition add_to ::
  "env \<Rightarrow> collection option \<Rightarrow> string \<Rightarrow> string \<Rightarrow> dict \<Rightarrow> error + (collection \<times> string)" where
  "add_to ev coll ty content metadata =
     (case generate_id (md5_hexdigest ev) (now_generate_id ev) content metadata of
        Inl e \<Rightarrow> Inl e
      | Inr ident \<Rightarrow>
          (case coll of
             None \<Rightarrow> Inl (AttributeError ''add'')
           | Some c \<Rightarrow>
               (case collection_add (chroma_add_failure ev) c content
                       (stamped metadata (now_metadata ev) ty) ident of
                  Inl e \<Rightarrow> Inl e
                | Inr c' \<Rightarrow> Inr (c', ident))))"

definition add_campaign_content ::
  "env \<Rightarrow> VectorStore \<Rightarrow> string \<Rightarrow> dict \<Rightarrow> VectorStore \<times> (error + string)" where
  "add_campaign_content ev vs content metadata =
     (case add_to ev (campaign_collection vs) ''campaign_content'' content metadata of
        Inl e \<Rightarrow> (vs, Inl e)
      | Inr (c', ident) \<Rightarrow> (vs\<lparr>campaign_collection := Some c'\<rparr>, Inr ident))"

definition add_memory ::
  "env \<Rightarrow> VectorStore \<Rightarrow> string \<Rightarrow> dict \<Rightarrow> VectorStore \<times> (error + string)" where
  "add_memory ev vs content metadata =
     (case add_to ev (memory_collection vs) ''memory'' content metadata of
        Inl e \<Rightarrow> (vs, Inl e)
      | Inr (c', ident) \<Rightarrow> (vs\<lparr>memory_collection := Some c'\<rparr>, Inr ident))"

definition add_character_info ::
  "env \<Rightarrow> VectorStore \<Rightarrow> string \<Rightarrow> dict \<Rightarrow> VectorStore \<times> (error + string)" where
  "add_character_info ev vs content metadata =
     (case add_to ev (character_collection vs) ''character_info'' content metadata of
        Inl e \<Rightarrow> (vs, Inl e)
      | Inr (c', ident) \<Rightarrow> (vs\<lparr>character_collection := Some c'\<rparr>, Inr ident))"

text \<open>One \<open>collection.query(...)\<close> followed by \<open>_format_results\<close>.\<close>

definition query_formatted ::
  "env \<Rightarrow> collection option \<Rightarrow> string \<Rightarrow> dict \<Rightarrow> int \<Rightarrow> string \<Rightarrow> error + formatted list" where
  "query_formatted ev coll query filt n_results label =
     (case coll of
        None \<Rightarrow> Inl (AttributeError ''query'')
      | Some c \<Rightarrow>
          (case chroma_query ev c query filt n_results of
             Inl e \<Rightarrow> Inl e
           | Inr r \<Rightarrow> Inr (format_results r label)))"

text \<open>
  \<open>results.sort(key=lambda x: x.get("distance", float('inf')))\<close>. Every result has the key
  \<open>distance\<close>, so the default is never used; a \<open>None\<close> distance cannot be compared, and
  the sort raises \<open>TypeError\<close> as soon as it compares two keys, that is, on two results or
  more. The sort is stable, as \<open>sort_key\<close> is.
\<close>

definition sort_by_distance :: "formatted list \<Rightarrow> error + formatted list" where
  "sort_by_distance rs =
     (if length rs \<le> 1 then Inr rs
      else if list_ex (\<lambda>r. f_distance r = None) rs
      then Inl (TypeError ''< not supported between NoneType and float'')
      else Inr (sort_key (\<lambda>r. the (f_distance r)) rs))"

text \<open>\<open>xs[:k]\<close> for any integer \<open>k\<close>: a negative \<open>k\<close> drops from the end.\<close>

definition slice_to :: "int \<Rightarrow> 'a list \<Rightarrow> 'a list" where
  "slice_to k xs = (if 0 \<le> k then take (nat k) xs else take (length xs - nat (- k)) xs)"

text \<open>
  The \<open>try\<close> block of \<open>get_relevant_context\<close>: \<open>results\<close> is extended by each partition
  that \<open>collection_type\<close> selects, in the order campaign, memory, character.
\<close>

definition extend_from ::
  "env \<Rightarrow> bool \<Rightarrow> collection option \<Rightarrow> string \<Rightarrow> int \<Rightarrow> string \<Rightarrow>
   formatted list \<Rightarrow> error + formatted list" where
  "extend_from ev selected coll query limit label results =
     (if selected
      then (case query_formatted ev coll query [] limit label of
              Inl e \<Rightarrow> Inl e
            | Inr rs \<Rightarrow> Inr (results @ rs))
      else Inr results)"

definition relevant_context_try ::
  "env \<Rightarrow> VectorStore \<Rightarrow> string \<Rightarrow> int \<Rightarrow> string \<Rightarrow> error + formatted list" where
  "relevant_context_try ev vs query limit collection_type =
     (case extend_from ev (collection_type \<in> set [''all'', ''campaign''])
             (campaign_collection vs) query limit ''campaign'' [] of
        Inl e \<Rightarrow> Inl e
      | Inr r1 \<Rightarrow>
     (case extend_from ev (collection_type \<in> set [''all'', ''memory''])
             (memory_collection vs) query limit ''memory'' r1 of
        Inl e \<Rightarrow> Inl e
      | Inr r2 \<Rightarrow>
     (case extend_from ev (collection_type \<in> set [''all'', ''character''])
             (character_collection vs) query limit ''character'' r2 of
        Inl e \<Rightarrow> Inl e
      | Inr r3 \<Rightarrow>
     (case sort_by_distance r3 of
        Inl e \<Rightarrow> Inl e
      | Inr sorted_results \<Rightarrow> Inr (slice_to limit sorted_results)))))"

text \<open>
  \<open>VectorStore.get_relevant_context\<close>: the \<open>except Exception\<close> clause logs the error and
  returns the empty list.
\<close>

definition get_relevant_context ::
  "env \<Rightarrow> VectorStore \<Rightarrow> string \<Rightarrow> int \<Rightarrow> string \<Rightarrow> formatted list" where
  "get_relevant_context ev vs query limit collection_type =
     (case relevant_context_try ev vs query limit collection_type of
        Inl e \<Rightarrow> []
      | Inr results \<Rightarrow> results)"

text \<open>\<open>VectorStore.get_campaign_memories\<close>, with the same \<open>except\<close> clause.\<close>

definition get_campaign_memories ::
  "env \<Rightarrow> VectorStore \<Rightarrow> string \<Rightarrow> int \<Rightarrow> formatted list" where
  "get_campaign_memories ev vs campaign_id limit =
     (case query_formatted ev (memory_collection vs) ''campaign memories''
             [(''campaign_id'', VStr campaign_id)] limit ''memory'' of
        Inl e \<Rightarrow> []
      | Inr results \<Rightarrow> results)"

section \<open>Printing Python values\<close>

definition nl :: string where
  "nl = [CHR 0x0A]"

definition str_int :: "int \<Rightarrow> string" where
  "str_int i = (if i < 0 then ''-'' @ digits (nat (- i)) else digits (nat i))"

text \<open>
  \<open>str(v)\<close> as an f-string prints it; floats, lists and dictionaries are printed by the
  collaborator \<open>repr_of\<close>.
\<close>

definition py_str :: "env \<Rightarrow> pyval \<Rightarrow> string" where
  "py_str ev v =
     (case v of
        VStr s \<Rightarrow> s
      | VInt i \<Rightarrow> str_int i
      | VNone \<Rightarrow> ''None''
      | VBool b \<Rightarrow> (if b then ''True'' else ''False'')
      | _ \<Rightarrow> repr_of ev v)"

text \<open>\<open>d.get(k, default)\<close>.\<close>

definition dict_get :: "dict \<Rightarrow> string \<Rightarrow> pyval \<Rightarrow> pyval" where
  "dict_get d k dflt = (case map_of d k of Some v \<Rightarrow> v | None \<Rightarrow> dflt)"

text \<open>\<open>str(e)\<close> of an exception: its message.\<close>

fun error_message :: "error \<Rightarrow> string" where
  "error_message (ValueError m) = m"
| "error_message (RuntimeError m) = m"
| "error_message (AttributeError m) = m"
| "error_message (TypeError m) = m"
| "error_message (GenerationError m) = m"
| "error_message (StoreError m) = m"

section \<open>Narrative generation gateway: structured variant (ai/ollama_client.py)\<close>

text \<open>
  \<open>OllamaClient.generate_response\<close>, the blocking call to the backend, is the
  collaborator \<open>ollama_generate\<close> of the environment: it returns the text or raises.
\<close>

definition context_line :: "env \<Rightarrow> dict \<Rightarrow> string \<Rightarrow> string \<Rightarrow> string list" where
  "context_line ev ctx key label =
     (case map_of ctx key of
        None \<Rightarrow> []
      | Some v \<Rightarrow> if truthy v then [label @ py_str ev v] else [])"

text \<open>\<open>OllamaClient._build_dm_prompt\<close>.\<close>

definition OllamaClient_build_dm_prompt :: "env \<Rightarrow> string \<Rightarrow> dict option \<Rightarrow> string" where
  "OllamaClient_build_dm_prompt ev user_prompt ctx =
     (let prompt_parts =
        [''You are an expert Dungeon Master for D&D 5th Edition. You create immersive, engaging narratives and follow the rules accurately.'',
         [],
         ''Response Format:'',
         ''- Provide vivid, descriptive narrative'',
         ''- If dice rolls are needed, specify them clearly (e.g., '' @ [CHR 0x27] @
           ''Roll a d20 for Investigation'' @ [CHR 0x27] @ '')'',
         ''- Keep responses engaging but not overly long'',
         ''- Follow D&D 5e rules precisely'',
         ''- Remember that player choices have permanent consequences'',
         []];
          with_context =
            (case ctx of
               None \<Rightarrow> []
             | Some c \<Rightarrow>
                 if c = [] then []
                 else context_line ev c ''character'' ''Player Character: '' @
                      context_line ev c ''location'' ''Current Location: '' @
                      context_line ev c ''recent_events'' ''Recent Events: '' @ [[]])
      in join nl (prompt_parts @ with_context @
           [''Player Action/Question: '' @ user_prompt, [], ''Provide your DM response:'']))"

definition gateway_fallback :: string where
  "gateway_fallback = ''The DM pauses, deep in thought...''"

text \<open>\<open>OllamaClient.generate_dm_response\<close>; \<open>model\<close> is \<open>self.model\<close>.\<close>

definition OllamaClient_generate_dm_response ::
  "env \<Rightarrow> string \<Rightarrow> string \<Rightarrow> dict option \<Rightarrow> dict" where
  "OllamaClient_generate_dm_response ev model prompt ctx =
     (let dm_prompt = OllamaClient_build_dm_prompt ev prompt ctx
      in case ollama_generate ev dm_prompt of
           Inr response \<Rightarrow> parse_dm_response model response
         | Inl e \<Rightarrow>
             [(''narrative'', VStr gateway_fallback),
              (''action_required'', VBool False),
              (''dice_needed'', VList []),
              (''metadata'', VDict [(''error'', VStr (error_message e))])])"

section \<open>Structured store (data/database.py)\<close>

record session_row =
  s_id :: string
  s_character_id :: string
  s_campaign_id :: "string option"
  s_ended :: bool

record action_row =
  a_session_id :: string
  a_action_type :: string
  a_content :: string
  a_context :: dict

record Database =
  characters :: "(string \<times> dict) list"
  campaigns :: "(string \<times> dict) list"
  sessions :: "session_row list"
  actions :: "action_row list"

text \<open>
  Every operation opens a connection first; when the store cannot be reached
  (\<open>db_failure\<close>) it raises before reading or writing anything.
\<close>

definition get_character :: "env \<Rightarrow> Database \<Rightarrow> string \<Rightarrow> error + dict option" where
  "get_character ev db character_id =
     (case db_failure ev of
        Some e \<Rightarrow> Inl e
      | None \<Rightarrow> Inr (map_of (characters db) character_id))"

definition get_campaign :: "env \<Rightarrow> Database \<Rightarrow> string \<Rightarrow> error + dict option" where
  "get_campaign ev db campaign_id =
     (case db_failure ev of
        Some e \<Rightarrow> Inl e
      | None \<Rightarrow> Inr (map_of (campaigns db) campaign_id))"

text \<open>
  \<open>DatabaseManager.create_session\<close>: the id is \<open>sess_\<close> and the clock reading to the
  second; \<open>id\<close> is the primary key of the table, so a second row under the same id is
  refused.
\<close>

definition db_create_session ::
  "env \<Rightarrow> Database \<Rightarrow> string \<Rightarrow> string option \<Rightarrow> error + (Database \<times> string)" where
  "db_create_session ev db character_id campaign_id =
     (let session_id = ''sess_'' @ strftime_id (now_session_id ev)
      in case db_failure ev of
           Some e \<Rightarrow> Inl e
         | None \<Rightarrow>
             if session_id \<in> s_id ` set (sessions db)
             then Inl (StoreError ''UNIQUE constraint failed: sessions.id'')
             else Inr (db\<lparr>sessions := sessions db @
                          [\<lparr>s_id = session_id, s_character_id = character_id,
                            s_campaign_id = campaign_id, s_ended = False\<rparr>]\<rparr>,
                       session_id))"

definition db_end_session :: "env \<Rightarrow> Database \<Rightarrow> string \<Rightarrow> error + Database" where
  "db_end_session ev db session_id =
     (case db_failure ev of
        Some e \<Rightarrow> Inl e
      | None \<Rightarrow>
          Inr (db\<lparr>sessions :=
                 map (\<lambda>r. if s_id r = session_id then r\<lparr>s_ended := True\<rparr> else r) (sessions db)\<rparr>))"

text \<open>\<open>get_recent_sessions\<close>: the newest rows of a character first, \<open>limit\<close> at most.\<close>

definition get_recent_sessions ::
  "env \<Rightarrow> Database \<Rightarrow> string \<Rightarrow> nat \<Rightarrow> error + session_row list" where
  "get_recent_sessions ev db character_id limit =
     (case db_failure ev of
        Some e \<Rightarrow> Inl e
      | None \<Rightarrow> Inr (take limit (rev (filter (\<lambda>r. s_character_id r = character_id) (sessions db)))))"

text \<open>\<open>log_action\<close> with its default \<open>context\<close>: two rows, the action and the response.\<close>

definition log_action :: "env \<Rightarrow> Database \<Rightarrow> string \<Rightarrow> string \<Rightarrow> string \<Rightarrow> error + Database" where
  "log_action ev db session_id player_action dm_response =
     (case db_failure ev of
        Some e \<Rightarrow> Inl e
      | None \<Rightarrow>
          Inr (db\<lparr>actions := actions db @
                 [\<lparr>a_session_id = session_id, a_action_type = ''player_action'',
                   a_content = player_action, a_context = []\<rparr>,
                  \<lparr>a_session_id = session_id, a_action_type = ''dm_response'',
                   a_content = dm_response, a_context = []\<rparr>]\<rparr>))"

section \<open>Session orchestrator and context assembler (core/dm_engine.py)\<close>

record session =
  ses_id :: string
  ses_character_id :: string
  ses_campaign_id :: "string option"
  ses_start_time :: real

text \<open>An entry of the short-term session memory; \<open>m_extra\<close> is its \<open>context\<close> or \<open>metadata\<close>.\<close>

record memory_entry =
  m_type :: string
  m_content :: string
  m_timestamp :: real
  m_extra :: dict

text \<open>
  The engine: \<open>ollama_client\<close> tells whether the client object is there, \<open>ai_model\<close> is
  \<open>config.ai_model\<close>.
\<close>

record DMEngine =
  ai_model :: string
  ollama_client :: bool
  database :: Database
  vector_store :: VectorStore
  current_session :: "session option"
  active_character :: "dict option"
  campaign_context :: dict
  session_memory :: "memory_entry list"
  campaign_memory :: "formatted list"

text \<open>\<open>if d:\<close> for an optional dictionary: neither \<open>None\<close> nor empty.\<close>

definition dict_truthy :: "dict option \<Rightarrow> bool" where
  "dict_truthy d = (case d of None \<Rightarrow> False | Some kv \<Rightarrow> kv \<noteq> [])"

text \<open>\<open>if s:\<close> for an optional string.\<close>

definition str_truthy :: "string option \<Rightarrow> bool" where
  "str_truthy s = (case s of None \<Rightarrow> False | Some x \<Rightarrow> x \<noteq> [])"

text \<open>\<open>xs[-n:]\<close> for a positive \<open>n\<close>: the last \<open>n\<close> elements.\<close>

definition last_n :: "nat \<Rightarrow> 'a list \<Rightarrow> 'a list" where
  "last_n n xs = drop (length xs - n) xs"

definition system_prompt :: string where
  "system_prompt =
     ''You are an expert Dungeon Master for D&D 5th Edition. You are creative, fair, and focused on creating an engaging story. '' @ nl @
     nl @
     ''Key principles:'' @ nl @
     ''- Follow D&D 5e rules accurately'' @ nl @
     ''- Create vivid, immersive descriptions'' @ nl @
     ''- Respond to player actions meaningfully'' @ nl @
     ''- Ask for dice rolls when appropriate'' @ nl @
     ''- Keep the story moving forward'' @ nl @
     ''- Remember that player choices have permanent consequences'' @ nl @
     nl @
     ''Current situation:''"

definition character_part :: "env \<Rightarrow> DMEngine \<Rightarrow> string list" where
  "character_part ev eng =
     (case active_character eng of
        None \<Rightarrow> []
      | Some c \<Rightarrow>
          if c = [] then []
          else [''Player Character: '' @ py_str ev (dict_get c ''name'' (VStr ''Unknown'')) @
                '' (Level '' @ py_str ev (dict_get c ''level'' (VInt 1)) @ '' '' @
                py_str ev (dict_get c ''class'' (VStr ''Adventurer'')) @ '')''])"

definition campaign_part :: "env \<Rightarrow> DMEngine \<Rightarrow> string list" where
  "campaign_part ev eng =
     (if campaign_context eng = [] then []
      else [''Campaign: '' @
            py_str ev (dict_get (campaign_context eng) ''name'' (VStr ''Custom Adventure''))])"

definition context_part :: "env \<Rightarrow> formatted list \<Rightarrow> string list" where
  "context_part ev context =
     (if context = [] then []
      else ''Recent events and relevant context:'' #
           map (\<lambda>ctx. ''- '' @ str_of_result ev ctx) (last_n 3 context))"

definition memory_line :: "memory_entry \<Rightarrow> string list" where
  "memory_line memory =
     (if m_type memory = ''player_action'' then [''Player: '' @ m_content memory]
      else if m_type memory = ''dm_response'' then [''DM: '' @ m_content memory]
      else [])"

definition memory_part :: "DMEngine \<Rightarrow> string list" where
  "memory_part eng =
     (if session_memory eng = [] then []
      else (nl @ ''Recent actions in this session:'') #
           concat (map memory_line (last_n 5 (session_memory eng))))"

definition action_line :: "string \<Rightarrow> string" where
  "action_line action = nl @ ''Player'' @ [CHR 0x27] @ ''s current action: '' @ action"

definition closing_line :: string where
  "closing_line = nl @ ''Provide a detailed DM response:''"

text \<open>The list \<open>prompt_parts\<close> of \<open>DMEngine._build_dm_prompt\<close> when it is joined.\<close>

definition prompt_parts :: "env \<Rightarrow> DMEngine \<Rightarrow> string \<Rightarrow> formatted list \<Rightarrow> string list" where
  "prompt_parts ev eng action context =
     [system_prompt] @ character_part ev eng @ campaign_part ev eng @
     context_part ev context @ memory_part eng @
     [action_line action] @ [closing_line]"

text \<open>\<open>DMEngine._build_dm_prompt\<close>.\<close>

definition build_dm_prompt :: "env \<Rightarrow> DMEngine \<Rightarrow> string \<Rightarrow> formatted list \<Rightarrow> string" where
  "build_dm_prompt ev eng action context = join nl (prompt_parts ev eng action context)"

definition engine_fallback :: string where
  "engine_fallback = ''The DM pauses, deep in thought about your action...''"

text \<open>\<open>DMEngine._generate_dm_response\<close>.\<close>

definition generate_dm_response :: "env \<Rightarrow> DMEngine \<Rightarrow> string \<Rightarrow> formatted list \<Rightarrow> dict" where
  "generate_dm_response ev eng action context =
     (if \<not> ollama_client eng
      then [(''narrative'', VStr ''The DM seems to be deep in thought...''), (''metadata'', VDict [])]
      else (let prompt = build_dm_prompt ev eng action context
            in case ollama_generate ev prompt of
                 Inr response \<Rightarrow>
                   [(''narrative'', VStr response),
                    (''metadata'', VDict [(''model_used'', VStr (ai_model eng)),
                                          (''context_used'', VInt (int (length context)))])]
               | Inl e \<Rightarrow>
                   [(''narrative'', VStr engine_fallback),
                    (''metadata'', VDict [(''error'', VStr (error_message e))])]))"

text \<open>\<open>dm_response['narrative']\<close> and \<open>dm_response.get('metadata', {})\<close>.\<close>

definition narrative_of :: "dict \<Rightarrow> string" where
  "narrative_of r = (case map_of r ''narrative'' of Some (VStr s) \<Rightarrow> s | _ \<Rightarrow> [])"

definition metadata_of :: "dict \<Rightarrow> dict" where
  "metadata_of r = (case map_of r ''metadata'' of Some (VDict d) \<Rightarrow> d | _ \<Rightarrow> [])"

text \<open>\<open>DMEngine._load_session_context\<close>; the recent sessions are read and not kept.\<close>

definition load_session_context :: "env \<Rightarrow> DMEngine \<Rightarrow> DMEngine \<times> (error + unit)" where
  "load_session_context ev eng =
     (case current_session eng of
        None \<Rightarrow> (eng, Inr ())
      | Some cs \<Rightarrow>
          (case get_recent_sessions ev (database eng) (ses_character_id cs) 5 of
             Inl e \<Rightarrow> (eng, Inl e)
           | Inr recent_sessions \<Rightarrow>
               if str_truthy (ses_campaign_id cs)
               then (eng\<lparr>campaign_memory := campaign_memory eng @
                          get_campaign_memories ev (vector_store eng) (the (ses_campaign_id cs)) 10\<rparr>,
                     Inr ())
               else (eng, Inr ())))"

text \<open>
  \<open>DMEngine.create_session\<close>, statement by statement: the engine after each assignment
  is the one a later \<open>raise\<close> leaves behind.
\<close>

definition create_session ::
  "env \<Rightarrow> DMEngine \<Rightarrow> string \<Rightarrow> string option \<Rightarrow> DMEngine \<times> (error + string)" where
  "create_session ev eng character_id campaign_id =
     (case get_character ev (database eng) character_id of
        Inl e \<Rightarrow> (eng, Inl e)
      | Inr ch \<Rightarrow>
          (let eng1 = eng\<lparr>active_character := ch\<rparr>
           in if \<not> dict_truthy ch
              then (eng1, Inl (ValueError (''Character '' @ character_id @ '' not found'')))
              else
                (case (if str_truthy campaign_id
                       then (case get_campaign ev (database eng1) (the campaign_id) of
                               Inl e \<Rightarrow> Inl e
                             | Inr campaign_data \<Rightarrow>
                                 if dict_truthy campaign_data
                                 then Inr (eng1\<lparr>campaign_context := the campaign_data\<rparr>)
                                 else Inr eng1)
                       else Inr eng1) of
                   Inl e \<Rightarrow> (eng1, Inl e)
                 | Inr eng2 \<Rightarrow>
                     (case db_create_session ev (database eng2) character_id campaign_id of
                        Inl e \<Rightarrow> (eng2, Inl e)
                      | Inr (db', session_id) \<Rightarrow>
                          (let eng3 = eng2\<lparr>database := db',
                                 current_session := Some \<lparr>ses_id = session_id,
                                   ses_character_id = character_id,
                                   ses_campaign_id = campaign_id,
                                   ses_start_time = loop_time_start ev\<rparr>\<rparr>
                           in case load_session_context ev eng3 of
                                (eng4, Inl e) \<Rightarrow> (eng4, Inl e)
                              | (eng4, Inr u) \<Rightarrow> (eng4, Inr session_id))))))"

text \<open>
  \<open>DMEngine.process_player_action\<close>. \<open>context\<close> is the optional dictionary of the caller
  (\<open>context or {}\<close>). The engine returned with an error is the engine at the statement
  that raised.
\<close>

definition process_player_action ::
  "env \<Rightarrow> DMEngine \<Rightarrow> string \<Rightarrow> dict option \<Rightarrow> DMEngine \<times> (error + dict)" where
  "process_player_action ev eng action context =
     (case current_session eng of
        None \<Rightarrow> (eng, Inl (RuntimeError ''No active session''))
      | Some cs \<Rightarrow>
          (let action_entry = \<lparr>m_type = ''player_action'', m_content = action,
                 m_timestamp = loop_time_action ev,
                 m_extra = (case context of None \<Rightarrow> [] | Some c \<Rightarrow> c)\<rparr>;
               eng1 = eng\<lparr>session_memory := session_memory eng @ [action_entry]\<rparr>;
               relevant_context = get_relevant_context ev (vector_store eng1) action 5 ''all'';
               dm_response = generate_dm_response ev eng1 action relevant_context;
               response_entry = \<lparr>m_type = ''dm_response'', m_content = narrative_of dm_response,
                 m_timestamp = loop_time_response ev,
                 m_extra = metadata_of dm_response\<rparr>;
               eng2 = eng1\<lparr>session_memory := session_memory eng1 @ [response_entry]\<rparr>
           in case add_memory ev (vector_store eng2)
                     (''Player: '' @ action @ '' | DM: '' @ narrative_of dm_response)
                     [(''session_id'', VStr (ses_id cs)),
                      (''character_id'', VStr (ses_character_id cs)),
                      (''action_type'', VStr ''interaction'')] of
                (vs', Inl e) \<Rightarrow> (eng2\<lparr>vector_store := vs'\<rparr>, Inl e)
              | (vs', Inr memory_id) \<Rightarrow>
                  (let eng3 = eng2\<lparr>vector_store := vs'\<rparr>
                   in case log_action ev (database eng3) (ses_id cs) action
                             (narrative_of dm_response) of
                        Inl e \<Rightarrow> (eng3, Inl e)
                      | Inr db' \<Rightarrow> (eng3\<lparr>database := db'\<rparr>, Inr dm_response))))"

text \<open>\<open>DMEngine.end_session\<close>.\<close>

definition end_session :: "env \<Rightarrow> DMEngine \<Rightarrow> DMEngine \<times> (error + unit)" where
  "end_session ev eng =
     (case current_session eng of
        None \<Rightarrow> (eng, Inr ())
      | Some cs \<Rightarrow>
          (case db_end_session ev (database eng) (ses_id cs) of
             Inl e \<Rightarrow> (eng, Inl e)
           | Inr db' \<Rightarrow>
               (eng\<lparr>database := db', current_session := None, active_character := None,
                    session_memory := [], campaign_memory := [], campaign_context := []\<rparr>,
                Inr ())))"

section \<open>Concrete collaborators and states\<close>

text \<open>
  The inputs at which the theorems below are instantiated: two clock readings one second
  apart, the digests of the texts that are stored, the generation backend answering or
  failing, and an index whose distance is the difference in length between document and
  query (a stand-in for the embedding distance) and which refuses a request for no
  results.
\<close>

definition sample_now :: datetime where
  "sample_now = \<lparr>year = 2026, month = 3, day = 9, hour = 7, minute = 0, second = 59,
                  microsecond = 12\<rparr>"

definition sample_later :: datetime where
  "sample_later = \<lparr>year = 2026, month = 3, day = 9, hour = 7, minute = 1, second = 0,
                    microsecond = 40\<rparr>"

definition sample_md5 :: "string \<Rightarrow> string" where
  "sample_md5 s =
     (if s = ''The party enters the crypt'' then ''57d298779b0bfe51c4bf24056f28a162''
      else if s = ''Player: I search the room | DM: You find a rusty key.''
      then ''83109f7e83ba6061b70540da53d6071d''
      else if s = ''Player: I search the room | DM: The DM pauses, deep in thought about your action...''
      then ''86d0791e3a94bf0a80ec7639dad20296''
      else ''d41d8cd98f00b204e9800998ecf8427e'')"

definition sample_distance :: "string \<Rightarrow> entry \<Rightarrow> real" where
  "sample_distance query e = \<bar>real (length (e_document e)) - real (length query)\<bar>"

definition matches :: "dict \<Rightarrow> entry \<Rightarrow> bool" where
  "matches filt e = list_all (\<lambda>(k, v). map_of (e_metadata e) k = Some v) filt"

definition sample_query :: "collection \<Rightarrow> string \<Rightarrow> dict \<Rightarrow> int \<Rightarrow> error + query_result" where
  "sample_query c query filt n_results =
     (if n_results \<le> 0 then Inl (TypeError ''Number of requested results cannot be negative, or zero'')
      else (let hits = take (nat n_results) (sort_key (sample_distance query) (filter (matches filt) c))
            in Inr \<lparr>qr_ids = Some [map e_id hits],
                    qr_documents = Some [map e_document hits],
                    qr_metadatas = Some [map e_metadata hits],
                    qr_distances = Some [map (sample_distance query) hits]\<rparr>))"

definition sample_env :: env where
  "sample_env =
     \<lparr>md5_hexdigest = sample_md5,
      chroma_query = sample_query,
      chroma_add_failure = None,
      ollama_generate = (\<lambda>prompt. Inr ''You find a rusty key.''),
      db_failure = None,
      str_of_result = f_content,
      repr_of = (\<lambda>v. ''...''),
      now_generate_id = sample_now,
      now_metadata = sample_now,
      now_session_id = sample_now,
      loop_time_start = 1,
      loop_time_action = 2,
      loop_time_response = 3\<rparr>"

text \<open>The same environment one second later.\<close>

definition later_env :: env where
  "later_env = sample_env\<lparr>now_generate_id := sample_later, now_metadata := sample_later,
                           now_session_id := sample_later\<rparr>"

text \<open>The generation backend answers with an error status.\<close>

definition no_generation_env :: env where
  "no_generation_env =
     sample_env\<lparr>ollama_generate := (\<lambda>prompt. Inl (GenerationError ''Ollama API error 500: overloaded''))\<rparr>"

text \<open>The embedding function fails on a write.\<close>

definition no_embedding_env :: env where
  "no_embedding_env = sample_env\<lparr>chroma_add_failure := Some (StoreError ''embedding function failed'')\<rparr>"

text \<open>The index fails on every query.\<close>

definition no_query_env :: env where
  "no_query_env =
     sample_env\<lparr>chroma_query := (\<lambda>c query filt n. Inl (StoreError ''embedding function failed''))\<rparr>"

definition empty_store :: VectorStore where
  "empty_store = \<lparr>campaign_collection = Some [], memory_collection = Some [],
                   character_collection = Some []\<rparr>"

definition lore_store :: VectorStore where
  "lore_store =
     \<lparr>campaign_collection = Some
        [\<lparr>e_id = ''c1'', e_document = ''Elandra the Sage is a wise hermit'', e_metadata = []\<rparr>,
         \<lparr>e_id = ''c2'', e_document = ''The crypt door'', e_metadata = []\<rparr>],
      memory_collection = Some
        [\<lparr>e_id = ''m1'', e_document = ''Player: I open it'', e_metadata = []\<rparr>,
         \<lparr>e_id = ''m2'', e_document = ''Player: I rest | DM: Night falls'', e_metadata = []\<rparr>],
      character_collection = Some
        [\<lparr>e_id = ''h1'', e_document = ''Aria fears spiders'', e_metadata = []\<rparr>]\<rparr>"

definition aria :: dict where
  "aria = [(''id'', VStr ''char_1''), (''name'', VStr ''Aria''), (''class'', VStr ''Wizard''),
           (''level'', VInt 1), (''race'', VStr ''Elf'')]"

definition new_engine :: DMEngine where
  "new_engine =
     \<lparr>ai_model = ''llama3'', ollama_client = True,
      database = \<lparr>characters = [(''char_1'', aria)], campaigns = [], sessions = [], actions = []\<rparr>,
      vector_store = empty_store,
      current_session = None, active_character = None, campaign_context = [],
      session_memory = [], campaign_memory = []\<rparr>"

text \<open>The engine after \<open>create_session\<close> for Aria at \<open>sample_now\<close>.\<close>

definition active_engine :: DMEngine where
  "active_engine =
     new_engine\<lparr>database := (database new_engine)\<lparr>sessions :=
                    [\<lparr>s_id = ''sess_20260309_070059'', s_character_id = ''char_1'',
                      s_campaign_id = None, s_ended = False\<rparr>]\<rparr>,
                 current_session := Some \<lparr>ses_id = ''sess_20260309_070059'',
                    ses_character_id = ''char_1'', ses_campaign_id = None, ses_start_time = 1\<rparr>,
                 active_character := Some aria\<rparr>"

definition sample_scores :: AbilityScores where
  "sample_scores = \<lparr>strength = 15, dexterity = 8, constitution = 10,
                    intelligence = 3, wisdom = 1, charisma = 30\<rparr>"

text \<open>States reached from the ones above, and the results the sample index returns.\<close>

definition played_engine :: DMEngine where
  "played_engine = fst (process_player_action sample_env active_engine ''I search the room'' None)"

definition crypt_metadata :: dict where
  "crypt_metadata = [(''session_id'', VStr ''sess_20260309_070059'')]"

definition crypt_store :: VectorStore where
  "crypt_store =
     fst (add_memory sample_env empty_store ''The party enters the crypt'' crypt_metadata)"

definition crypt_store_later :: VectorStore where
  "crypt_store_later =
     fst (add_memory later_env crypt_store ''The party enters the crypt'' crypt_metadata)"

definition from_campaign :: "formatted list" where
  "from_campaign =
     [\<lparr>f_id = Some ''c2'', f_content = ''The crypt door'', f_metadata = [],
       f_distance = Some 1, f_collection = ''campaign''\<rparr>,
      \<lparr>f_id = Some ''c1'', f_content = ''Elandra the Sage is a wise hermit'', f_metadata = [],
       f_distance = Some 18, f_collection = ''campaign''\<rparr>]"

definition from_memory :: "formatted list" where
  "from_memory =
     [\<lparr>f_id = Some ''m1'', f_content = ''Player: I open it'', f_metadata = [],
       f_distance = Some 2, f_collection = ''memory''\<rparr>,
      \<lparr>f_id = Some ''m2'', f_content = ''Player: I rest | DM: Night falls'', f_metadata = [],
       f_distance = Some 17, f_collection = ''memory''\<rparr>]"

definition from_character :: "formatted list" where
  "from_character =
     [\<lparr>f_id = Some ''h1'', f_content = ''Aria fears spiders'', f_metadata = [],
       f_distance = Some 3, f_collection = ''character''\<rparr>]"

section \<open>Properties stated about result lists\<close>

text \<open>
  A result list is in ascending order of distance when, of any two results in list
  order, both have a distance and the earlier one is not the larger.
\<close>

definition nearer :: "formatted \<Rightarrow> formatted \<Rightarrow> bool" where
  "nearer a b = (case (f_distance a, f_distance b) of (Some x, Some y) \<Rightarrow> x \<le> y | _ \<Rightarrow> False)"

definition ascending_by_distance :: "formatted list \<Rightarrow> bool" where
  "ascending_by_distance rs = sorted_wrt nearer rs"

section \<open>Fragment ids and repeated insertion\<close>

lemma join_Cons: "join sep (p # ps) = p @ (if ps = [] then [] else sep @ join sep ps)"
  by (cases ps) simp_all

lemma join_append:
  "xs \<noteq> [] \<Longrightarrow> ys \<noteq> [] \<Longrightarrow> join sep (xs @ ys) = join sep xs @ sep @ join sep ys"
  by (induction sep xs rule: join.induct) (simp_all add: join_Cons)

text \<open>An id is the digest prefix, the clock reading and a suffix fixed by the metadata.\<close>

lemma generate_id_shape:
  assumes "generate_id md5 t content metadata = Inr i"
  shows "\<exists>sfx. \<forall>t'. generate_id md5 t' content metadata =
           Inr (take 8 (md5 content) @ ''_'' @ strftime_id t' @ sfx)"
proof -
  from assms obtain p1 p2 p3 where
    p: "id_part ''sess_'' ''session_id'' metadata = Inr p1"
       "id_part ''char_'' ''character_id'' metadata = Inr p2"
       "id_part ''camp_'' ''campaign_id'' metadata = Inr p3"
    by (auto simp: generate_id_def Let_def split: sum.splits)
  let ?rest = "p1 @ p2 @ p3"
  let ?sfx = "if ?rest = [] then [] else ''_'' @ join ''_'' ?rest"
  have "\<forall>t'. generate_id md5 t' content metadata =
           Inr (take 8 (md5 content) @ ''_'' @ strftime_id t' @ ?sfx)"
    using p by (simp add: generate_id_def Let_def join_Cons)
  then show ?thesis by blast
qed

lemma interaction_id:
  "generate_id md5 now content
     [(''session_id'', VStr a), (''character_id'', VStr b), (''action_type'', VStr c)] =
   Inr (join ''_'' ([take 8 (md5 content), strftime_id now] @
          (if a = [] then [] else [''sess_'' @ last8 a]) @
          (if b = [] then [] else [''char_'' @ last8 b])))"
  by (simp add: generate_id_def id_part_def)

lemma add_memory_Inr:
  assumes "add_memory ev vs content metadata = (vs', Inr i)"
  shows "generate_id (md5_hexdigest ev) (now_generate_id ev) content metadata = Inr i
       \<and> (\<exists>c. memory_collection vs = Some c
            \<and> vs' = vs\<lparr>memory_collection := Some
                 (if i \<in> e_id ` set c then c
                  else c @ [\<lparr>e_id = i, e_document = content,
                              e_metadata = stamped metadata (now_metadata ev) ''memory''\<rparr>])\<rparr>)"
  using assms
  by (auto simp: add_memory_def add_to_def collection_add_def
           split: sum.splits option.splits if_splits)

lemma add_memory_failure:
  assumes "chroma_add_failure ev = Some e" and "memory_collection vs = Some c"
    and "generate_id (md5_hexdigest ev) (now_generate_id ev) content metadata = Inr i"
  shows "add_memory ev vs content metadata = (vs, Inl e)"
  using assms by (simp add: add_memory_def add_to_def collection_add_def)

lemma add_memory_success:
  assumes "chroma_add_failure ev = None" and "memory_collection vs = Some c"
    and "generate_id (md5_hexdigest ev) (now_generate_id ev) content metadata = Inr i"
  shows "\<exists>c'. add_memory ev vs content metadata = (vs\<lparr>memory_collection := Some c'\<rparr>, Inr i)"
  using assms by (auto simp: add_memory_def add_to_def collection_add_def)

text \<open>
  Claim C1, as the code has it. The fragment id is derived from the content, the metadata
  and the clock reading to the second, so insertion is idempotent only within one clock
  second: when \<open>add_memory\<close> succeeds twice with identical content and metadata (and the
  same digest function), the two ids are equal exactly when the two clock readings print
  the same to the second; with equal ids the second call leaves the store as it was;
  and starting from an empty memory partition the store ends with one entry when the
  ids are equal and with two when they differ. The other two add operations have the
  same body on their own partition.
\<close>

theorem add_memory_twice_same_second:
  assumes "add_memory ev1 vs content metadata = (vs1, Inr id1)"
    and "add_memory ev2 vs1 content metadata = (vs2, Inr id2)"
    and "md5_hexdigest ev1 = md5_hexdigest ev2"
  shows "(id1 = id2 \<longleftrightarrow>
            strftime_id (now_generate_id ev1) = strftime_id (now_generate_id ev2))
       \<and> (id1 = id2 \<longrightarrow> vs2 = vs1)
       \<and> (memory_collection vs = Some [] \<longrightarrow>
            (\<exists>c2. memory_collection vs2 = Some c2
               \<and> length c2 = (if id1 = id2 then 1 else 2)))"
proof -
  from add_memory_Inr [OF assms(1)] obtain c0 where
    g1: "generate_id (md5_hexdigest ev1) (now_generate_id ev1) content metadata = Inr id1"
    and c0: "memory_collection vs = Some c0"
    and vs1: "vs1 = vs\<lparr>memory_collection := Some
                 (if id1 \<in> e_id ` set c0 then c0
                  else c0 @ [\<lparr>e_id = id1, e_document = content,
                              e_metadata = stamped metadata (now_metadata ev1) ''memory''\<rparr>])\<rparr>"
    by blast
  from add_memory_Inr [OF assms(2)] obtain c1 where
    g2: "generate_id (md5_hexdigest ev2) (now_generate_id ev2) content metadata = Inr id2"
    and c1: "memory_collection vs1 = Some c1"
    and vs2: "vs2 = vs1\<lparr>memory_collection := Some
                 (if id2 \<in> e_id ` set c1 then c1
                  else c1 @ [\<lparr>e_id = id2, e_document = content,
                              e_metadata = stamped metadata (now_metadata ev2) ''memory''\<rparr>])\<rparr>"
    by blast
  from generate_id_shape [OF g1] obtain sfx where
    sfx: "\<And>t'. generate_id (md5_hexdigest ev1) t' content metadata =
            Inr (take 8 (md5_hexdigest ev1 content) @ ''_'' @ strftime_id t' @ sfx)"
    by blast
  have i1: "id1 = take 8 (md5_hexdigest ev1 content) @ ''_'' @ strftime_id (now_generate_id ev1) @ sfx"
    using g1 sfx [of "now_generate_id ev1"] by simp
  have i2: "id2 = take 8 (md5_hexdigest ev1 content) @ ''_'' @ strftime_id (now_generate_id ev2) @ sfx"
    using g2 sfx [of "now_generate_id ev2"] assms(3) by simp
  have same: "id1 = id2 \<longleftrightarrow>
            strftime_id (now_generate_id ev1) = strftime_id (now_generate_id ev2)"
    by (simp add: i1 i2)
  have in1: "id1 \<in> e_id ` set c1"
    using c1 vs1 by (auto split: if_splits)
  have noop: "id1 = id2 \<Longrightarrow> vs2 = vs1"
    using vs2 in1 c1 by simp
  have fresh: "memory_collection vs = Some [] \<Longrightarrow>
        \<exists>c2. memory_collection vs2 = Some c2 \<and> length c2 = (if id1 = id2 then 1 else 2)"
    using c0 vs1 c1 vs2 by auto
  from same noop fresh show ?thesis by blast
qed

theorem add_memory_twice_same_second_witness:
  "add_memory sample_env empty_store ''The party enters the crypt'' crypt_metadata =
     (crypt_store, Inr ''57d29877_20260309_070059_sess_9_070059'')
   \<and> add_memory sample_env crypt_store ''The party enters the crypt'' crypt_metadata =
     (crypt_store, Inr ''57d29877_20260309_070059_sess_9_070059'')
   \<and> add_memory later_env crypt_store ''The party enters the crypt'' crypt_metadata =
     (crypt_store_later, Inr ''57d29877_20260309_070100_sess_9_070059'')
   \<and> strftime_id (now_generate_id sample_env) \<noteq> strftime_id (now_generate_id later_env)
   \<and> map_option length (memory_collection crypt_store) = Some 1
   \<and> map_option length (memory_collection crypt_store_later) = Some 2"
proof -
  have h1: "add_memory sample_env empty_store ''The party enters the crypt'' crypt_metadata =
     (crypt_store, Inr ''57d29877_20260309_070059_sess_9_070059'')"
    by code_simp
  have h2: "add_memory sample_env crypt_store ''The party enters the crypt'' crypt_metadata =
     (crypt_store, Inr ''57d29877_20260309_070059_sess_9_070059'')"
    by code_simp
  have h3: "add_memory later_env crypt_store ''The party enters the crypt'' crypt_metadata =
     (crypt_store_later, Inr ''57d29877_20260309_070100_sess_9_070059'')"
    by code_simp
  have m: "md5_hexdigest sample_env = md5_hexdigest later_env"
    by (simp add: later_env_def)
  have e: "memory_collection empty_store = Some []"
    by (simp add: empty_store_def)
  have d: "''57d29877_20260309_070059_sess_9_070059'' \<noteq> ''57d29877_20260309_070100_sess_9_070059''"
    by simp
  note same = add_memory_twice_same_second [OF h1 h2 refl]
  note later = add_memory_twice_same_second [OF h1 h3 m]
  have t: "strftime_id (now_generate_id sample_env) \<noteq> strftime_id (now_generate_id later_env)"
    using later d by blast
  have one: "map_option length (memory_collection crypt_store) = Some 1"
    using same e by auto
  have two: "map_option length (memory_collection crypt_store_later) = Some 2"
    using later e d by auto
  show ?thesis
    using h1 h2 h3 t one two by blast
qed

text \<open>
  As first stated, with no condition on the clock, the property fails: the same content
  and metadata added at 07:00:59 and again at 07:01:00 get two different ids, and the
  memory partition holds two entries.
\<close>

theorem add_memory_twice_counterexample:
  "snd (add_memory sample_env empty_store ''The party enters the crypt'' crypt_metadata) =
     Inr ''57d29877_20260309_070059_sess_9_070059''
   \<and> snd (add_memory later_env
           (fst (add_memory sample_env empty_store ''The party enters the crypt'' crypt_metadata))
           ''The party enters the crypt'' crypt_metadata) =
     Inr ''57d29877_20260309_070100_sess_9_070059''
   \<and> map_option (map e_id) (memory_collection (fst (add_memory later_env
           (fst (add_memory sample_env empty_store ''The party enters the crypt'' crypt_metadata))
           ''The party enters the crypt'' crypt_metadata))) =
     Some [''57d29877_20260309_070059_sess_9_070059'', ''57d29877_20260309_070100_sess_9_070059'']"
  by code_simp

section \<open>Querying all partitions\<close>

lemma slice_to_take: "\<exists>n. slice_to k xs = take n xs"
  by (auto simp: slice_to_def)

lemma length_slice_to: "0 \<le> k \<Longrightarrow> int (length (slice_to k xs)) \<le> k"
  by (simp add: slice_to_def)

lemma ascending_slice: "ascending_by_distance rs \<Longrightarrow> ascending_by_distance (slice_to k rs)"
  using slice_to_take [of k rs] by (auto simp: ascending_by_distance_def sorted_wrt_take)

lemma ascending_sort_key:
  assumes "\<not> list_ex (\<lambda>r. f_distance r = None) rs"
  shows "ascending_by_distance (sort_key (\<lambda>r. the (f_distance r)) rs)"
proof -
  let ?s = "sort_key (\<lambda>r. the (f_distance r)) rs"
  have "sorted (map (\<lambda>r. the (f_distance r)) ?s)"
    by (rule sorted_sort_key)
  then have "sorted_wrt (\<lambda>a b. the (f_distance a) \<le> the (f_distance b)) ?s"
    by (simp add: sorted_map)
  moreover have "\<And>a b. a \<in> set ?s \<Longrightarrow> b \<in> set ?s \<Longrightarrow>
       the (f_distance a) \<le> the (f_distance b) \<Longrightarrow> nearer a b"
    using assms by (fastforce simp: nearer_def list_ex_iff split: option.splits)
  ultimately show ?thesis
    unfolding ascending_by_distance_def by (rule sorted_wrt_mono_rel [rotated])
qed

lemma ascending_sort_by_distance:
  "sort_by_distance rs = Inr s \<Longrightarrow> ascending_by_distance s"
proof (cases "length rs \<le> 1")
  case True
  then show "sort_by_distance rs = Inr s \<Longrightarrow> ascending_by_distance s"
    by (auto simp: sort_by_distance_def ascending_by_distance_def intro: sorted_wrt01)
next
  case False
  then show "sort_by_distance rs = Inr s \<Longrightarrow> ascending_by_distance s"
    using ascending_sort_key [of rs]
    by (auto simp: sort_by_distance_def split: if_splits)
qed

lemma sort_key_short: "length rs \<le> 1 \<Longrightarrow> sort_key f rs = rs"
  by (cases rs) (simp_all add: le_Suc_eq)

lemma sort_by_distance_all_known:
  "list_all (\<lambda>r. f_distance r \<noteq> None) rs \<Longrightarrow>
   sort_by_distance rs = Inr (sort_key (\<lambda>r. the (f_distance r)) rs)"
  by (auto simp: sort_by_distance_def sort_key_short list_all_iff list_ex_iff)

text \<open>With \<open>all\<close>, the three partitions are queried in turn and their results pooled.\<close>

lemma relevant_context_try_all:
  "relevant_context_try ev vs query limit ''all'' =
     (case query_formatted ev (campaign_collection vs) query [] limit ''campaign'' of
        Inl e \<Rightarrow> Inl e
      | Inr rc \<Rightarrow>
     (case query_formatted ev (memory_collection vs) query [] limit ''memory'' of
        Inl e \<Rightarrow> Inl e
      | Inr rm \<Rightarrow>
     (case query_formatted ev (character_collection vs) query [] limit ''character'' of
        Inl e \<Rightarrow> Inl e
      | Inr rh \<Rightarrow>
     (case sort_by_distance (rc @ rm @ rh) of
        Inl e \<Rightarrow> Inl e
      | Inr s \<Rightarrow> Inr (slice_to limit s)))))"
  by (simp add: relevant_context_try_def extend_from_def split: sum.splits)

lemma relevant_context_try_ascending:
  "relevant_context_try ev vs query limit ''all'' = Inr rs \<Longrightarrow>
   ascending_by_distance rs \<and> (0 \<le> limit \<longrightarrow> int (length rs) \<le> limit)"
  by (auto simp: relevant_context_try_all ascending_slice ascending_sort_by_distance
        length_slice_to split: sum.splits)

text \<open>
  Claim C2. For every query text and every limit \<open>k\<close> (a count, so not negative), the
  result of \<open>get_relevant_context\<close> with partition \<open>all\<close> is in ascending order of
  distance and has at most \<open>k\<close> elements; and when the three partitions answer with
  results that carry their distances, it is the pooled list of all three, sorted by
  distance whatever partition a result came from, and cut to \<open>k\<close>.
\<close>

theorem relevant_context_all_sorted_truncated:
  "ascending_by_distance (get_relevant_context ev vs query limit ''all'')
   \<and> (0 \<le> limit \<longrightarrow> int (length (get_relevant_context ev vs query limit ''all'')) \<le> limit)
   \<and> (query_formatted ev (campaign_collection vs) query [] limit ''campaign'' = Inr rc
      \<and> query_formatted ev (memory_collection vs) query [] limit ''memory'' = Inr rm
      \<and> query_formatted ev (character_collection vs) query [] limit ''character'' = Inr rh
      \<and> list_all (\<lambda>r. f_distance r \<noteq> None) (rc @ rm @ rh)
      \<longrightarrow> get_relevant_context ev vs query limit ''all'' =
            slice_to limit (sort_key (\<lambda>r. the (f_distance r)) (rc @ rm @ rh)))"
proof (intro conjI impI)
  show "ascending_by_distance (get_relevant_context ev vs query limit ''all'')"
    using relevant_context_try_ascending [of ev vs query limit]
    by (auto simp: get_relevant_context_def ascending_by_distance_def split: sum.splits)
next
  assume "0 \<le> limit"
  then show "int (length (get_relevant_context ev vs query limit ''all'')) \<le> limit"
    using relevant_context_try_ascending [of ev vs query limit]
    by (auto simp: get_relevant_context_def split: sum.splits)
next
  assume "query_formatted ev (campaign_collection vs) query [] limit ''campaign'' = Inr rc
      \<and> query_formatted ev (memory_collection vs) query [] limit ''memory'' = Inr rm
      \<and> query_formatted ev (character_collection vs) query [] limit ''character'' = Inr rh
      \<and> list_all (\<lambda>r. f_distance r \<noteq> None) (rc @ rm @ rh)"
  then show "get_relevant_context ev vs query limit ''all'' =
            slice_to limit (sort_key (\<lambda>r. the (f_distance r)) (rc @ rm @ rh))"
    by (simp add: get_relevant_context_def relevant_context_try_all sort_by_distance_all_known)
qed

theorem relevant_context_all_sorted_truncated_witness:
  "query_formatted sample_env (campaign_collection lore_store) ''I open the door'' [] 2 ''campaign''
     = Inr from_campaign
   \<and> query_formatted sample_env (memory_collection lore_store) ''I open the door'' [] 2 ''memory''
     = Inr from_memory
   \<and> query_formatted sample_env (character_collection lore_store) ''I open the door'' [] 2 ''character''
     = Inr from_character
   \<and> get_relevant_context sample_env lore_store ''I open the door'' 2 ''all'' =
       [hd from_campaign, hd from_memory]
   \<and> ascending_by_distance (get_relevant_context sample_env lore_store ''I open the door'' 2 ''all'')
   \<and> int (length (get_relevant_context sample_env lore_store ''I open the door'' 2 ''all'')) \<le> 2"
proof -
  have c: "query_formatted sample_env (campaign_collection lore_store) ''I open the door'' [] 2
             ''campaign'' = Inr from_campaign"
    by code_simp
  have m: "query_formatted sample_env (memory_collection lore_store) ''I open the door'' [] 2
             ''memory'' = Inr from_memory"
    by code_simp
  have h: "query_formatted sample_env (character_collection lore_store) ''I open the door'' [] 2
             ''character'' = Inr from_character"
    by code_simp
  have k: "list_all (\<lambda>r. f_distance r \<noteq> None) (from_campaign @ from_memory @ from_character)"
    by (simp add: from_campaign_def from_memory_def from_character_def)
  have s: "slice_to 2 (sort_key (\<lambda>r. the (f_distance r))
             (from_campaign @ from_memory @ from_character)) = [hd from_campaign, hd from_memory]"
    by (simp add: slice_to_def from_campaign_def from_memory_def from_character_def)
  note t = relevant_context_all_sorted_truncated
      [of sample_env lore_store "''I open the door''" 2 from_campaign from_memory from_character]
  have eq: "get_relevant_context sample_env lore_store ''I open the door'' 2 ''all'' =
       [hd from_campaign, hd from_memory]"
    using t c m h k s by simp
  have asc: "ascending_by_distance
       (get_relevant_context sample_env lore_store ''I open the door'' 2 ''all'')"
    using t by blast
  have len: "int (length (get_relevant_context sample_env lore_store ''I open the door'' 2 ''all''))
       \<le> 2"
    using t by simp
  show ?thesis
    using c m h eq asc len by blast
qed

section \<open>Failures of the embedding function and the index\<close>

text \<open>
  Claim C6, as the code has it. A failure of the embedding function or the index during
  an add operation reaches the caller: each of the three add operations returns an
  error and leaves the store as it was, and \<open>add_memory\<close> returns the very error of
  the index when the id could be derived and the partition is there. A failure during a
  query does not reach the caller: when the query of any partition fails,
  \<open>get_relevant_context\<close> returns the empty list.
\<close>

theorem index_failure_add_raises_query_returns_empty:
  "(chroma_add_failure ev = Some e \<longrightarrow>
      (\<exists>e'. add_campaign_content ev vs content metadata = (vs, Inl e'))
      \<and> (\<exists>e'. add_memory ev vs content metadata = (vs, Inl e'))
      \<and> (\<exists>e'. add_character_info ev vs content metadata = (vs, Inl e')))
   \<and> (chroma_add_failure ev = Some e \<and> memory_collection vs = Some c
        \<and> generate_id (md5_hexdigest ev) (now_generate_id ev) content metadata = Inr i \<longrightarrow>
        add_memory ev vs content metadata = (vs, Inl e))
   \<and> ((\<exists>e. query_formatted ev (campaign_collection vs) query [] limit ''campaign'' = Inl e)
        \<or> (\<exists>e. query_formatted ev (memory_collection vs) query [] limit ''memory'' = Inl e)
        \<or> (\<exists>e. query_formatted ev (character_collection vs) query [] limit ''character'' = Inl e)
        \<longrightarrow> get_relevant_context ev vs query limit ''all'' = [])"
proof (intro conjI impI)
  assume f: "chroma_add_failure ev = Some e"
  have x: "\<exists>e'. add_to ev coll ty content metadata = Inl e'" for coll ty
    using f by (auto simp: add_to_def collection_add_def split: sum.splits option.splits)
  show "\<exists>e'. add_campaign_content ev vs content metadata = (vs, Inl e')"
    using x [of "campaign_collection vs" "''campaign_content''"]
    by (auto simp: add_campaign_content_def)
  show "\<exists>e'. add_memory ev vs content metadata = (vs, Inl e')"
    using x [of "memory_collection vs" "''memory''"]
    by (auto simp: add_memory_def)
  show "\<exists>e'. add_character_info ev vs content metadata = (vs, Inl e')"
    using x [of "character_collection vs" "''character_info''"]
    by (auto simp: add_character_info_def)
next
  assume "chroma_add_failure ev = Some e \<and> memory_collection vs = Some c
        \<and> generate_id (md5_hexdigest ev) (now_generate_id ev) content metadata = Inr i"
  then show "add_memory ev vs content metadata = (vs, Inl e)"
    by (simp add: add_memory_def add_to_def collection_add_def)
next
  assume "(\<exists>e. query_formatted ev (campaign_collection vs) query [] limit ''campaign'' = Inl e)
        \<or> (\<exists>e. query_formatted ev (memory_collection vs) query [] limit ''memory'' = Inl e)
        \<or> (\<exists>e. query_formatted ev (character_collection vs) query [] limit ''character'' = Inl e)"
  then show "get_relevant_context ev vs query limit ''all'' = []"
    by (auto simp: get_relevant_context_def relevant_context_try_all split: sum.splits)
qed

theorem index_failure_add_raises_query_returns_empty_witness:
  "chroma_add_failure no_embedding_env = Some (StoreError ''embedding function failed'')
   \<and> add_memory no_embedding_env empty_store ''The party enters the crypt'' crypt_metadata =
       (empty_store, Inl (StoreError ''embedding function failed''))
   \<and> query_formatted no_query_env (memory_collection lore_store) ''I open the door'' [] 5 ''memory''
       = Inl (StoreError ''embedding function failed'')
   \<and> get_relevant_context no_query_env lore_store ''I open the door'' 5 ''all'' = []"
proof -
  have a: "chroma_add_failure no_embedding_env = Some (StoreError ''embedding function failed'')"
    by (simp add: no_embedding_env_def)
  have b: "memory_collection empty_store = Some []"
    by (simp add: empty_store_def)
  have c: "generate_id (md5_hexdigest no_embedding_env) (now_generate_id no_embedding_env)
             ''The party enters the crypt'' crypt_metadata =
           Inr ''57d29877_20260309_070059_sess_9_070059''"
    by code_simp
  have d: "query_formatted no_query_env (memory_collection lore_store) ''I open the door'' [] 5
             ''memory'' = Inl (StoreError ''embedding function failed'')"
    by code_simp
  show ?thesis
    using index_failure_add_raises_query_returns_empty
      [of no_embedding_env "StoreError ''embedding function failed''" empty_store
          "''The party enters the crypt''" crypt_metadata "[]"
          "''57d29877_20260309_070059_sess_9_070059''"]
      index_failure_add_raises_query_returns_empty
      [of no_query_env _ lore_store _ _ _ _ "''I open the door''" 5]
    using a b c d by blast
qed

text \<open>
  As first stated, with failures of a query surfaced as well, the property fails: with an
  index that fails on every query, the query of the campaign partition raises and
  \<open>get_relevant_context\<close> returns the empty list.
\<close>

theorem query_failure_counterexample:
  "query_formatted no_query_env (campaign_collection lore_store) ''I open the door'' [] 5 ''campaign''
     = Inl (StoreError ''embedding function failed'')
   \<and> get_relevant_context no_query_env lore_store ''I open the door'' 5 ''all'' = []"
  by code_simp

section \<open>Processing an action when a collaborator fails\<close>

text \<open>
  Claim C3, as the code has it. While a session is active and the client is there, a
  failing generation backend does not make \<open>process_player_action\<close> raise: when the
  two store writes succeed it returns a response with the fixed, non-empty fallback
  narrative and metadata holding the error message, and with no other key, so the
  response has neither \<open>action_required\<close> nor \<open>dice_needed\<close>. Those two fields, false
  and empty, are in the fallback of the gateway's structured variant
  \<open>OllamaClient.generate_dm_response\<close>, which the engine does not call.
\<close>

theorem process_action_generation_failure:
  assumes "current_session eng = Some cs"
    and "ollama_client eng"
    and "\<forall>prompt. ollama_generate ev prompt = Inl e"
    and "chroma_add_failure ev = None"
    and "memory_collection (vector_store eng) = Some c"
    and "db_failure ev = None"
  shows "snd (process_player_action ev eng action context) =
           Inr [(''narrative'', VStr engine_fallback),
                (''metadata'', VDict [(''error'', VStr (error_message e))])]
       \<and> engine_fallback \<noteq> []
       \<and> OllamaClient_generate_dm_response ev model prompt ctx =
           [(''narrative'', VStr gateway_fallback),
            (''action_required'', VBool False),
            (''dice_needed'', VList []),
            (''metadata'', VDict [(''error'', VStr (error_message e))])]
       \<and> gateway_fallback \<noteq> []"
proof -
  let ?eng1 = "eng\<lparr>session_memory := session_memory eng @
                 [\<lparr>m_type = ''player_action'', m_content = action,
                   m_timestamp = loop_time_action ev,
                   m_extra = (case context of None \<Rightarrow> [] | Some c \<Rightarrow> c)\<rparr>]\<rparr>"
  let ?r = "[(''narrative'', VStr engine_fallback),
             (''metadata'', VDict [(''error'', VStr (error_message e))])]"
  have g: "\<And>ctxs. generate_dm_response ev ?eng1 action ctxs = ?r"
    using assms(2,3) by (simp add: generate_dm_response_def)
  have n: "narrative_of ?r = engine_fallback"
    by (simp add: narrative_of_def)
  obtain i where i: "generate_id (md5_hexdigest ev) (now_generate_id ev)
        (''Player: '' @ action @ '' | DM: '' @ engine_fallback)
        [(''session_id'', VStr (ses_id cs)), (''character_id'', VStr (ses_character_id cs)),
         (''action_type'', VStr ''interaction'')] = Inr i"
    by (simp add: interaction_id)
  obtain c' where c': "add_memory ev (vector_store eng)
        (''Player: '' @ action @ '' | DM: '' @ engine_fallback)
        [(''session_id'', VStr (ses_id cs)), (''character_id'', VStr (ses_character_id cs)),
         (''action_type'', VStr ''interaction'')] =
        ((vector_store eng)\<lparr>memory_collection := Some c'\<rparr>, Inr i)"
    using add_memory_success [OF assms(4) assms(5) i] by blast
  have "snd (process_player_action ev eng action context) = Inr ?r"
    using assms(1) assms(6) c'
    by (simp add: process_player_action_def Let_def g n log_action_def)
  moreover have "engine_fallback \<noteq> []" "gateway_fallback \<noteq> []"
    by (simp_all add: engine_fallback_def gateway_fallback_def)
  moreover have "OllamaClient_generate_dm_response ev model prompt ctx =
           [(''narrative'', VStr gateway_fallback),
            (''action_required'', VBool False),
            (''dice_needed'', VList []),
            (''metadata'', VDict [(''error'', VStr (error_message e))])]"
    using assms(3) by (simp add: OllamaClient_generate_dm_response_def)
  ultimately show ?thesis by blast
qed

theorem process_action_generation_failure_witness:
  "current_session active_engine \<noteq> None
   \<and> ollama_client active_engine
   \<and> (\<forall>prompt. ollama_generate no_generation_env prompt =
          Inl (GenerationError ''Ollama API error 500: overloaded''))
   \<and> chroma_add_failure no_generation_env = None
   \<and> memory_collection (vector_store active_engine) = Some []
   \<and> db_failure no_generation_env = None
   \<and> snd (process_player_action no_generation_env active_engine ''I search the room'' None) =
       Inr [(''narrative'', VStr engine_fallback),
            (''metadata'', VDict [(''error'', VStr ''Ollama API error 500: overloaded'')])]"
proof -
  have a: "current_session active_engine = Some \<lparr>ses_id = ''sess_20260309_070059'',
             ses_character_id = ''char_1'', ses_campaign_id = None, ses_start_time = 1\<rparr>"
    by (simp add: active_engine_def)
  have b: "ollama_client active_engine"
    by (simp add: active_engine_def new_engine_def)
  have c: "\<forall>prompt. ollama_generate no_generation_env prompt =
             Inl (GenerationError ''Ollama API error 500: overloaded'')"
    by (simp add: no_generation_env_def)
  have d: "chroma_add_failure no_generation_env = None"
    by (simp add: no_generation_env_def sample_env_def)
  have e: "memory_collection (vector_store active_engine) = Some []"
    by (simp add: active_engine_def new_engine_def empty_store_def)
  have f: "db_failure no_generation_env = None"
    by (simp add: no_generation_env_def sample_env_def)
  show ?thesis
    using process_action_generation_failure [OF a b c d e f, of "''I search the room''" None]
    by (simp add: a b c d e f)
qed

text \<open>
  As first stated, with \<open>action_required\<close> false and an empty \<open>dice_needed\<close> in the
  response, the property fails: the response to an action under a failing backend has
  the two keys \<open>narrative\<close> and \<open>metadata\<close> only.
\<close>

theorem process_action_generation_failure_counterexample:
  "snd (process_player_action no_generation_env active_engine ''I search the room'' None) =
     Inr [(''narrative'', VStr ''The DM pauses, deep in thought about your action...''),
          (''metadata'', VDict [(''error'', VStr ''Ollama API error 500: overloaded'')])]
   \<and> map_of [(''narrative'', VStr ''The DM pauses, deep in thought about your action...''),
          (''metadata'', VDict [(''error'', VStr ''Ollama API error 500: overloaded'')])]
        ''action_required'' = None
   \<and> map_of [(''narrative'', VStr ''The DM pauses, deep in thought about your action...''),
          (''metadata'', VDict [(''error'', VStr ''Ollama API error 500: overloaded'')])]
        ''dice_needed'' = None"
  by code_simp

text \<open>
  Claim C4, as the code has it. When the write to the semantic store in
  \<open>process_player_action\<close> fails with a store error, the error is raised to the caller:
  no response is returned, the relational store and the semantic store are as before
  (the action is not logged), and the short-term memory keeps the two entries, action
  and response, appended before the write.
\<close>

theorem process_action_store_failure_propagates:
  assumes "current_session eng = Some cs"
    and "chroma_add_failure ev = Some e"
    and "memory_collection (vector_store eng) = Some c"
  shows "snd (process_player_action ev eng action context) = Inl e
       \<and> database (fst (process_player_action ev eng action context)) = database eng
       \<and> vector_store (fst (process_player_action ev eng action context)) = vector_store eng
       \<and> length (session_memory (fst (process_player_action ev eng action context))) =
           length (session_memory eng) + 2"
  using assms
  by (simp add: process_player_action_def Let_def interaction_id add_memory_failure)

theorem process_action_store_failure_propagates_witness:
  "current_session active_engine \<noteq> None
   \<and> chroma_add_failure no_embedding_env = Some (StoreError ''embedding function failed'')
   \<and> memory_collection (vector_store active_engine) = Some []
   \<and> snd (process_player_action no_embedding_env active_engine ''I search the room'' None) =
       Inl (StoreError ''embedding function failed'')
   \<and> database (fst (process_player_action no_embedding_env active_engine ''I search the room'' None)) =
       database active_engine
   \<and> length (session_memory (fst (process_player_action no_embedding_env active_engine
        ''I search the room'' None))) = 2"
proof -
  have a: "current_session active_engine = Some \<lparr>ses_id = ''sess_20260309_070059'',
             ses_character_id = ''char_1'', ses_campaign_id = None, ses_start_time = 1\<rparr>"
    by (simp add: active_engine_def)
  have b: "chroma_add_failure no_embedding_env = Some (StoreError ''embedding function failed'')"
    by (simp add: no_embedding_env_def)
  have c: "memory_collection (vector_store active_engine) = Some []"
    by (simp add: active_engine_def new_engine_def empty_store_def)
  have d: "session_memory active_engine = []"
    by (simp add: active_engine_def new_engine_def)
  show ?thesis
    using process_action_store_failure_propagates [OF a b c, of "''I search the room''" None]
    by (simp add: a b c d)
qed

text \<open>
  As first stated, with the error swallowed, the property fails: under a failing
  embedding function the call ends with the store error, and the action log of the
  relational store is still empty.
\<close>

theorem process_action_store_failure_counterexample:
  "snd (process_player_action no_embedding_env active_engine ''I search the room'' None) =
     Inl (StoreError ''embedding function failed'')
   \<and> actions (database (fst (process_player_action no_embedding_env active_engine
         ''I search the room'' None))) = []"
  by code_simp

section \<open>The session state machine\<close>

text \<open>
  Claim C5. Without an active session, \<open>process_player_action\<close> fails with the state
  error and \<open>end_session\<close> returns with the engine unchanged. With an active session,
  \<open>end_session\<close> returns normally when the relational store is reachable, and whenever
  it returns normally the short-term session memory is empty and the session state is
  reset, so that any later \<open>process_player_action\<close> on that engine fails with the state
  error.
\<close>

theorem session_state_machine:
  "(current_session eng = None \<longrightarrow>
      process_player_action ev eng action context = (eng, Inl (RuntimeError ''No active session''))
      \<and> end_session ev eng = (eng, Inr ()))
   \<and> (current_session eng \<noteq> None \<and> db_failure ev = None \<longrightarrow> snd (end_session ev eng) = Inr ())
   \<and> (current_session eng \<noteq> None \<and> snd (end_session ev eng) = Inr () \<longrightarrow>
        session_memory (fst (end_session ev eng)) = []
        \<and> current_session (fst (end_session ev eng)) = None
        \<and> active_character (fst (end_session ev eng)) = None
        \<and> process_player_action ev' (fst (end_session ev eng)) action' context' =
            (fst (end_session ev eng), Inl (RuntimeError ''No active session'')))"
  by (auto simp: process_player_action_def end_session_def db_end_session_def
           split: option.splits sum.splits)

theorem session_state_machine_witness:
  "current_session new_engine = None
   \<and> snd (process_player_action sample_env new_engine ''I search the room'' None) =
       Inl (RuntimeError ''No active session'')
   \<and> end_session sample_env new_engine = (new_engine, Inr ())
   \<and> current_session played_engine \<noteq> None \<and> db_failure later_env = None
   \<and> length (session_memory played_engine) = 2
   \<and> snd (end_session later_env played_engine) = Inr ()
   \<and> session_memory (fst (end_session later_env played_engine)) = []
   \<and> snd (process_player_action later_env (fst (end_session later_env played_engine))
        ''I look around'' None) = Inl (RuntimeError ''No active session'')"
proof -
  have a: "current_session new_engine = None"
    by (simp add: new_engine_def)
  have b: "current_session played_engine \<noteq> None"
    unfolding played_engine_def by code_simp
  have c: "db_failure later_env = None"
    by (simp add: later_env_def sample_env_def)
  have d: "length (session_memory played_engine) = 2"
    unfolding played_engine_def by code_simp
  show ?thesis
    using session_state_machine [of new_engine sample_env "''I search the room''" None]
      session_state_machine [of played_engine later_env _ _ later_env "''I look around''" None]
    by (simp add: a b c d)
qed

section \<open>Creating a session for an unknown character\<close>

text \<open>The first session of the new engine leads to \<open>active_engine\<close>.\<close>

lemma create_session_aria:
  "create_session sample_env new_engine ''char_1'' None =
     (active_engine, Inr ''sess_20260309_070059'')"
  by code_simp

text \<open>
  Claim C8 says that a \<open>create_session\<close> for a character id that does not resolve fails
  with a not-found error and leaves the session state as it was. The code assigns the
  result of the lookup to \<open>active_character\<close> before it tests it: on the engine with
  Aria's session active, the call for the unknown id \<open>ghost\<close> fails with the not-found
  error, creates no session record and keeps the current session, and the active
  character, Aria before the call, is \<open>None\<close> after it.
\<close>

theorem create_session_unknown_character_clears_active_character:
  "current_session active_engine \<noteq> None
   \<and> active_character active_engine = Some aria
   \<and> create_session later_env active_engine ''ghost'' None =
       (active_engine\<lparr>active_character := None\<rparr>, Inl (ValueError ''Character ghost not found''))"
  by (simp add: create_session_def get_character_def later_env_def sample_env_def
        active_engine_def new_engine_def dict_truthy_def)

section \<open>The order of the assembled prompt\<close>

text \<open>
  Claim C7, as the code has it. In every prompt that \<open>_build_dm_prompt\<close> assembles, the
  fixed system instructions are the first part and the prompt begins with them, before
  all dynamic content (character, campaign, retrieved context, short-term memory); the
  line of the current player action comes after all dynamic content and is the last part
  but one: the final part is the fixed closing instruction, and the prompt ends with the
  action line followed by that instruction.
\<close>

theorem build_dm_prompt_order:
  "hd (prompt_parts ev eng action context) = system_prompt
   \<and> last (prompt_parts ev eng action context) = closing_line
   \<and> last (butlast (prompt_parts ev eng action context)) = action_line action
   \<and> prefix (system_prompt @ nl) (build_dm_prompt ev eng action context)
   \<and> suffix (nl @ action_line action @ nl @ closing_line) (build_dm_prompt ev eng action context)"
proof -
  let ?dyn = "character_part ev eng @ campaign_part ev eng @ context_part ev context @
              memory_part eng"
  have parts: "prompt_parts ev eng action context =
                 ([system_prompt] @ ?dyn) @ [action_line action, closing_line]"
    by (simp add: prompt_parts_def)
  have j: "build_dm_prompt ev eng action context =
             join nl ([system_prompt] @ ?dyn) @ nl @ action_line action @ nl @ closing_line"
    unfolding build_dm_prompt_def parts by (subst join_append) simp_all
  have p: "build_dm_prompt ev eng action context =
             system_prompt @ nl @ join nl (?dyn @ [action_line action, closing_line])"
    unfolding build_dm_prompt_def prompt_parts_def by (simp add: join_Cons)
  have "hd (prompt_parts ev eng action context) = system_prompt"
    by (simp add: prompt_parts_def)
  moreover have "last (prompt_parts ev eng action context) = closing_line"
    by (simp add: parts)
  moreover have "last (butlast (prompt_parts ev eng action context)) = action_line action"
    unfolding parts by (simp add: butlast_append)
  moreover have "prefix (system_prompt @ nl) (build_dm_prompt ev eng action context)"
    unfolding p by (simp add: prefix_def)
  moreover have "suffix (nl @ action_line action @ nl @ closing_line)
                   (build_dm_prompt ev eng action context)"
    unfolding j by (simp add: suffix_def)
  ultimately show ?thesis by blast
qed

theorem build_dm_prompt_order_witness:
  "prompt_parts sample_env played_engine ''I look around'' from_memory =
     [system_prompt,
      ''Player Character: Aria (Level 1 Wizard)'',
      ''Recent events and relevant context:'',
      ''- Player: I open it'',
      ''- Player: I rest | DM: Night falls'',
      nl @ ''Recent actions in this session:'',
      ''Player: I search the room'',
      ''DM: You find a rusty key.'',
      action_line ''I look around'',
      closing_line]
   \<and> prefix (system_prompt @ nl) (build_dm_prompt sample_env played_engine ''I look around'' from_memory)
   \<and> suffix (nl @ action_line ''I look around'' @ nl @ closing_line)
        (build_dm_prompt sample_env played_engine ''I look around'' from_memory)"
proof -
  have "prompt_parts sample_env played_engine ''I look around'' from_memory =
     [system_prompt,
      ''Player Character: Aria (Level 1 Wizard)'',
      ''Recent events and relevant context:'',
      ''- Player: I open it'',
      ''- Player: I rest | DM: Night falls'',
      nl @ ''Recent actions in this session:'',
      ''Player: I search the room'',
      ''DM: You find a rusty key.'',
      action_line ''I look around'',
      closing_line]"
    by code_simp
  then show ?thesis
    using build_dm_prompt_order [of sample_env played_engine "''I look around''" from_memory]
    by blast
qed

text \<open>
  As first stated, with the action text as the final element, the property fails: the
  last part of the prompt for the action \<open>I search the room\<close> is not its action line, and
  the prompt does not end with the action text but with the closing instruction.
\<close>

theorem build_dm_prompt_action_last_counterexample:
  "last (prompt_parts sample_env active_engine ''I search the room'' []) \<noteq>
     action_line ''I search the room''
   \<and> \<not> suffix ''I search the room'' (build_dm_prompt sample_env active_engine ''I search the room'' [])
   \<and> suffix ''Provide a detailed DM response:''
        (build_dm_prompt sample_env active_engine ''I search the room'' [])"
  by code_simp

section \<open>Ability modifiers\<close>

text \<open>Python's floor division by two is the floor of the quotient taken in the reals.\<close>

lemma floor_half: "\<lfloor>(real_of_int s - 10) / 2\<rfloor> = (s - 10) div 2"
proof -
  have "\<lfloor>(real_of_int s - 10) / 2\<rfloor> = \<lfloor>real_of_int (s - 10) / real_of_int 2\<rfloor>"
    by simp
  also have "\<dots> = (s - 10) div 2"
    by (rule floor_divide_of_int_eq)
  finally show ?thesis .
qed

text \<open>
  Claim C9. For each of the six abilities, named in any letter case, the modifier that
  \<open>get_modifier\<close> computes is the floor of (score - 10) / 2, taken in the reals, where
  the score is the value of that ability's field of the record. This holds for every
  integer score, so for the valid range 1 to 30, with negative results below 10: 15
  gives +2, 8 gives -1, 10 gives 0, 3 gives -4.
\<close>

theorem get_modifier_floor:
  "(lower ability = ''strength'' \<longrightarrow>
      get_modifier a ability = Inr \<lfloor>(real_of_int (strength a) - 10) / 2\<rfloor>)
   \<and> (lower ability = ''dexterity'' \<longrightarrow>
      get_modifier a ability = Inr \<lfloor>(real_of_int (dexterity a) - 10) / 2\<rfloor>)
   \<and> (lower ability = ''constitution'' \<longrightarrow>
      get_modifier a ability = Inr \<lfloor>(real_of_int (constitution a) - 10) / 2\<rfloor>)
   \<and> (lower ability = ''intelligence'' \<longrightarrow>
      get_modifier a ability = Inr \<lfloor>(real_of_int (intelligence a) - 10) / 2\<rfloor>)
   \<and> (lower ability = ''wisdom'' \<longrightarrow>
      get_modifier a ability = Inr \<lfloor>(real_of_int (wisdom a) - 10) / 2\<rfloor>)
   \<and> (lower ability = ''charisma'' \<longrightarrow>
      get_modifier a ability = Inr \<lfloor>(real_of_int (charisma a) - 10) / 2\<rfloor>)"
  by (simp add: get_modifier_def getattr_scores_def floor_half)

theorem get_modifier_floor_witness:
  "strength sample_scores = 15 \<and> get_modifier sample_scores ''Strength'' = Inr 2
   \<and> dexterity sample_scores = 8 \<and> get_modifier sample_scores ''dexterity'' = Inr (- 1)
   \<and> constitution sample_scores = 10 \<and> get_modifier sample_scores ''CONSTITUTION'' = Inr 0
   \<and> intelligence sample_scores = 3 \<and> get_modifier sample_scores ''intelligence'' = Inr (- 4)
   \<and> wisdom sample_scores = 1 \<and> get_modifier sample_scores ''Wisdom'' = Inr (- 5)
   \<and> charisma sample_scores = 30 \<and> get_modifier sample_scores ''charisma'' = Inr 10"
proof -
  have n: "lower ''Strength'' = ''strength''" "lower ''dexterity'' = ''dexterity''"
     "lower ''CONSTITUTION'' = ''constitution''" "lower ''intelligence'' = ''intelligence''"
     "lower ''Wisdom'' = ''wisdom''" "lower ''charisma'' = ''charisma''"
    by code_simp+
  have s: "strength sample_scores = 15" "dexterity sample_scores = 8"
     "constitution sample_scores = 10" "intelligence sample_scores = 3"
     "wisdom sample_scores = 1" "charisma sample_scores = 30"
    by (simp_all add: sample_scores_def)
  have f: "\<lfloor>(real_of_int 15 - 10) / 2\<rfloor> = 2" "\<lfloor>(real_of_int 8 - 10) / 2\<rfloor> = - 1"
     "\<lfloor>(real_of_int 10 - 10) / 2\<rfloor> = 0" "\<lfloor>(real_of_int 3 - 10) / 2\<rfloor> = - 4"
     "\<lfloor>(real_of_int 1 - 10) / 2\<rfloor> = - 5" "\<lfloor>(real_of_int 30 - 10) / 2\<rfloor> = 10"
    unfolding floor_eq_iff by simp_all
  show ?thesis
    using get_modifier_floor [of "''Strength''" sample_scores]
      get_modifier_floor [of "''dexterity''" sample_scores]
      get_modifier_floor [of "''CONSTITUTION''" sample_scores]
      get_modifier_floor [of "''intelligence''" sample_scores]
      get_modifier_floor [of "''Wisdom''" sample_scores]
      get_modifier_floor [of "''charisma''" sample_scores]
    unfolding n s f by simp
qed

section \<open>The response classifier\<close>

lemma dice_loop_nil:
  "dice_loop ps response [] =
     (if py_in ''d20'' (lower response) \<and> list_ex (\<lambda>p. py_in (lower p) (lower response)) ps
      then [d20_request] else [])"
  by (induction ps) simp_all

lemma lower_d20: "lower ''d20'' = ''d20''"
  by code_simp

lemma d20_is_pattern: "''d20'' \<in> set dice_patterns"
  by (simp add: dice_patterns_def)

lemma dice_needed_parse:
  "dice_needed_of (parse_dm_response model response) =
     (if py_in ''d20'' (lower response) then [d20_request] else [])"
proof -
  have "py_in ''d20'' (lower response) \<Longrightarrow>
        list_ex (\<lambda>p. py_in (lower p) (lower response)) dice_patterns"
    unfolding list_ex_iff using d20_is_pattern lower_d20 by force
  then show ?thesis
    by (auto simp: dice_needed_of_def parse_dm_response_def dice_loop_nil Let_def)
qed

lemma dice_type_d20: "dice_type d20_request = Some (VStr ''d20'')"
  by (simp add: dice_type_def d20_request_def)

text \<open>
  Claim C10. For every response string, the \<open>dice_needed\<close> list of the classifier has at
  most one entry, every entry has type \<open>d20\<close>, and a response without the substring
  \<open>d20\<close> gets the empty list, also when another die type matched a dice pattern.
\<close>

theorem parse_dm_response_dice_d20_only:
  "length (dice_needed_of (parse_dm_response model response)) \<le> 1
   \<and> (\<forall>d \<in> set (dice_needed_of (parse_dm_response model response)).
         dice_type d = Some (VStr ''d20''))
   \<and> (\<not> py_in ''d20'' (lower response) \<longrightarrow>
         dice_needed_of (parse_dm_response model response) = [])"
  by (simp add: dice_needed_parse dice_type_d20)

theorem parse_dm_response_dice_d20_only_witness:
  "py_in ''d6'' (lower ''Roll a D6 for damage'')
   \<and> \<not> py_in ''d20'' (lower ''Roll a D6 for damage'')
   \<and> dice_needed_of (parse_dm_response ''llama3'' ''Roll a D6 for damage'') = []
   \<and> map dice_type (dice_needed_of (parse_dm_response ''llama3'' ''Make a check: roll a D20'')) =
       [Some (VStr ''d20'')]"
proof -
  have a: "py_in ''d6'' (lower ''Roll a D6 for damage'')" by code_simp
  have b: "\<not> py_in ''d20'' (lower ''Roll a D6 for damage'')" by code_simp
  have d: "dice_needed_of (parse_dm_response ''llama3'' ''Make a check: roll a D20'') =
             [d20_request]"
    by code_simp
  have c: "dice_type d20_request = Some (VStr ''d20'')"
    using parse_dm_response_dice_d20_only [of "''llama3''" "''Make a check: roll a D20''"] d
    by simp
  from a b c d parse_dm_response_dice_d20_only [of "''llama3''" "''Roll a D6 for damage''"]
  show ?thesis by simp
qed

end
